theory Spec2Isabelle
  imports Complex_Main
begin

section \<open>Retention coil calculator (src/app.py)\<close>

text \<open>
  The calculation core of \<^verbatim>\<open>app.py\<close> is three functions: \<^verbatim>\<open>reynolds_number\<close>,
  \<^verbatim>\<open>darcy_friction_factor\<close> and \<^verbatim>\<open>calculate_retention_coil\<close>.

  Numbers. A Python \<^verbatim>\<open>float\<close> is read as a real number and every operation as the exact
  operation on reals: rounding, underflow and NaN are outside this model, and an input is a
  finite number. \<^verbatim>\<open>math.pi\<close> is \<open>pi\<close>, and \<^verbatim>\<open>re ** 0.9\<close>, which the source evaluates only
  for \<^verbatim>\<open>re >= 2300\<close>, is \<open>re powr 0.9\<close>. The value of \<^verbatim>\<open>math.ceil\<close> is a Python \<^verbatim>\<open>int\<close>,
  here \<open>int\<close>.

  State. The three functions read their parameters and \<^verbatim>\<open>math.pi\<close> only and assign local
  variables only, so each is embedded as a function of its arguments, without a state.

  Exceptions. The source raises where Python does, and every exception is a value of the
  type \<open>error\<close>: a function that can raise returns \<open>error + 'a\<close>, with \<open>Inl\<close> for the
  exception.
  \<^item> A float division by zero raises \<^verbatim>\<open>ZeroDivisionError\<close>. A division by a nonzero literal
    (\<^verbatim>\<open>/ 3600.0\<close>, \<^verbatim>\<open>/ 1000.0\<close>, \<^verbatim>\<open>/ 4.0\<close>, \<^verbatim>\<open>/ 3.7\<close>, \<^verbatim>\<open>/ 2.0\<close>) cannot raise and is
    written \<open>/\<close>.
  \<^item> \<^verbatim>\<open>math.log10\<close> of a number that is not positive raises \<^verbatim>\<open>ValueError\<close>.
  \<^item> A result beyond the range of a double raises \<^verbatim>\<open>OverflowError\<close> in the two operations
    of the source that raise on it: the float power \<^verbatim>\<open>x ** 2\<close>, and \<^verbatim>\<open>math.ceil\<close>, whose
    argument is then the float infinity. A product or a quotient beyond the range does not
    raise in Python; here it keeps its exact value, so that an infinity which reaches a later
    operation through further arithmetic is outside the model.
\<close>

datatype error = ZeroDivisionError | ValueError | OverflowError

subsection \<open>Python's operations\<close>

definition fdiv :: "real \<Rightarrow> real \<Rightarrow> error + real" where
  \<comment> \<open>\<^verbatim>\<open>a / b\<close> on floats\<close>
  "fdiv a b = (if b = 0 then Inl ZeroDivisionError else Inr (a / b))"

definition log10 :: "real \<Rightarrow> error + real" where
  \<comment> \<open>\<^verbatim>\<open>math.log10(x)\<close>: a math domain error for \<open>x \<le> 0\<close>\<close>
  "log10 x = (if x \<le> 0 then Inl ValueError else Inr (log 10 x))"

definition float_max :: real where
  \<comment> \<open>\<^verbatim>\<open>sys.float_info.max\<close>, the largest double\<close>
  "float_max = (2 ^ 53 - 1) * 2 ^ 971"

definition overflows :: "real \<Rightarrow> bool" where
  \<comment> \<open>the double nearest to \<open>x\<close> is an infinity: \<open>x\<close> is half a unit in the last place
      beyond \<open>float_max\<close>, or more\<close>
  "overflows x \<longleftrightarrow> float_max + 2 ^ 970 \<le> \<bar>x\<bar>"

definition fpow2 :: "real \<Rightarrow> error + real" where
  \<comment> \<open>\<^verbatim>\<open>x ** 2\<close> on a float: \<^verbatim>\<open>OverflowError\<close> (numerical result out of range)\<close>
  "fpow2 x = (if overflows (x\<^sup>2) then Inl OverflowError else Inr (x\<^sup>2))"

definition math_ceil :: "real \<Rightarrow> error + int" where
  \<comment> \<open>\<^verbatim>\<open>math.ceil(x)\<close>: \<^verbatim>\<open>OverflowError\<close> (cannot convert float infinity to integer)\<close>
  "math_ceil x = (if overflows x then Inl OverflowError else Inr \<lceil>x\<rceil>)"

definition bind_err :: "error + 'a \<Rightarrow> ('a \<Rightarrow> error + 'b) \<Rightarrow> error + 'b" where
  \<comment> \<open>sequencing: an exception of the first statement ends the call\<close>
  "bind_err m k = (case m of Inl e \<Rightarrow> Inl e | Inr v \<Rightarrow> k v)"

subsection \<open>The helpers\<close>

definition reynolds_number :: "real \<Rightarrow> real \<Rightarrow> real \<Rightarrow> real \<Rightarrow> error + real" where
  "reynolds_number rho velocity diameter_m mu_pa_s =
     fdiv (rho * velocity * diameter_m) mu_pa_s"

definition darcy_friction_factor :: "real \<Rightarrow> real \<Rightarrow> real \<Rightarrow> error + real" where
  "darcy_friction_factor re roughness_m diameter_m =
     (if re \<le> 0 then Inr 0
      else if re < 2300 then fdiv 64 re
      else
        bind_err (fdiv roughness_m diameter_m) (\<lambda>rel_roughness.
        bind_err (fdiv 5.74 (re powr 0.9)) (\<lambda>t.
        bind_err (log10 (rel_roughness / 3.7 + t)) (\<lambda>l.
        fdiv 0.25 (l\<^sup>2)))))"

subsection \<open>The result record and the calculation\<close>

record result =
  flow_m3_s :: real
  velocity :: real
  required_volume_m3 :: real
  length_m :: real
  n_straights :: int
  n_uturns :: int
  elbows_90 :: int
  re :: real
  f :: real
  k_total :: real
  dp_distributed_pa :: real
  dp_local_pa :: real
  dp_total_pa :: real

definition calculate_retention_coil ::
  "real \<Rightarrow> real \<Rightarrow> real \<Rightarrow> real \<Rightarrow> real \<Rightarrow> real \<Rightarrow> real \<Rightarrow> real \<Rightarrow> bool \<Rightarrow> error + result" where
  "calculate_retention_coil flow_m3_h retention_time_s diameter_mm roughness_mm rho mu_mpa_s
       straight_segment_m k_elbow_90 include_inlet_outlet_k =
     (let q_m3_s = flow_m3_h / 3600;
          diameter_m = diameter_mm / 1000;
          roughness_m = roughness_mm / 1000;
          mu_pa_s = mu_mpa_s / 1000
      in
      bind_err (fpow2 diameter_m) (\<lambda>diameter_m_squared.
      let area = pi * diameter_m_squared / 4
      in
      bind_err (fdiv q_m3_s area) (\<lambda>velocity.
      let required_volume_m3 = q_m3_s * retention_time_s
      in
      bind_err (fdiv required_volume_m3 area) (\<lambda>length_m.
      bind_err (fdiv length_m straight_segment_m) (\<lambda>segments.
      bind_err (math_ceil segments) (\<lambda>segments_ceil.
      let n_straights = max 1 segments_ceil;
          n_uturns = max 0 (n_straights - 1);
          elbows_90 = n_uturns * 2
      in
      bind_err (reynolds_number rho velocity diameter_m mu_pa_s) (\<lambda>re.
      bind_err (darcy_friction_factor re roughness_m diameter_m) (\<lambda>f.
      let k_total = of_int elbows_90 * k_elbow_90;
          k_total = (if include_inlet_outlet_k then k_total + 1.5 else k_total)
      in
      bind_err (fpow2 velocity) (\<lambda>velocity_squared.
      let dynamic_pressure = rho * velocity_squared / 2;
          dp_distributed_pa = f * (length_m / diameter_m) * dynamic_pressure;
          dp_local_pa = k_total * dynamic_pressure;
          dp_total_pa = dp_distributed_pa + dp_local_pa
      in Inr \<lparr>flow_m3_s = q_m3_s,
              velocity = velocity,
              required_volume_m3 = required_volume_m3,
              length_m = length_m,
              n_straights = n_straights,
              n_uturns = n_uturns,
              elbows_90 = elbows_90,
              re = re,
              f = f,
              k_total = k_total,
              dp_distributed_pa = dp_distributed_pa,
              dp_local_pa = dp_local_pa,
              dp_total_pa = dp_total_pa\<rparr>)))))))))"

section \<open>How a call returns\<close>

subsection \<open>Sequencing and division\<close>

lemma bind_err_Inr_iff: "bind_err m k = Inr r \<longleftrightarrow> (\<exists>v. m = Inr v \<and> k v = Inr r)"
  by (cases m) (simp_all add: bind_err_def)

lemma bind_err_Inl [simp]: "bind_err (Inl e) k = Inl e"
  by (simp add: bind_err_def)

lemma bind_err_Inr [simp]: "bind_err (Inr v) k = k v"
  by (simp add: bind_err_def)

lemma fdiv_Inr_iff: "fdiv a b = Inr c \<longleftrightarrow> b \<noteq> 0 \<and> c = a / b"
  by (auto simp: fdiv_def)

lemma fdiv_zero [simp]: "fdiv a 0 = Inl ZeroDivisionError"
  by (simp add: fdiv_def)

lemma fdiv_nonzero: "b \<noteq> 0 \<Longrightarrow> fdiv a b = Inr (a / b)"
  by (simp add: fdiv_def)

lemma fpow2_Inr_iff: "fpow2 x = Inr y \<longleftrightarrow> \<not> overflows (x\<^sup>2) \<and> y = x\<^sup>2"
  by (auto simp: fpow2_def)

lemma fpow2_in_range: "\<not> overflows (x\<^sup>2) \<Longrightarrow> fpow2 x = Inr (x\<^sup>2)"
  by (simp add: fpow2_def)

lemma math_ceil_Inr_iff: "math_ceil x = Inr n \<longleftrightarrow> \<not> overflows x \<and> n = \<lceil>x\<rceil>"
  by (auto simp: math_ceil_def)

lemma math_ceil_in_range: "\<not> overflows x \<Longrightarrow> math_ceil x = Inr \<lceil>x\<rceil>"
  by (simp add: math_ceil_def)

lemma math_ceil_overflow: "overflows x \<Longrightarrow> math_ceil x = Inl OverflowError"
  by (simp add: math_ceil_def)

lemma float_max_pos: "0 < float_max"
  by (simp add: float_max_def)

lemma not_overflows_small:
  assumes "\<bar>x\<bar> \<le> 10 ^ 40"
  shows "\<not> overflows x"
proof -
  have "(10::real) ^ 40 < 2 ^ 970" by simp
  with assms float_max_pos show ?thesis
    unfolding overflows_def by linarith
qed

lemma not_overflows_0 [simp]: "\<not> overflows 0"
  by (rule not_overflows_small) simp

lemma area_eq_0_iff: "pi * (d / 1000)\<^sup>2 / 4 = 0 \<longleftrightarrow> d = 0"
  by simp

lemma calculate_InrD:
  assumes "calculate_retention_coil Q t D eps rho mu Ls K io = Inr r"
  shows "D \<noteq> 0" and "Ls \<noteq> 0" and "mu \<noteq> 0"
    and "flow_m3_s r = Q / 3600"
    and "velocity r = flow_m3_s r / (pi * (D / 1000)\<^sup>2 / 4)"
    and "required_volume_m3 r = flow_m3_s r * t"
    and "length_m r = required_volume_m3 r / (pi * (D / 1000)\<^sup>2 / 4)"
    and "n_straights r = max 1 \<lceil>length_m r / Ls\<rceil>"
    and "n_uturns r = max 0 (n_straights r - 1)"
    and "elbows_90 r = n_uturns r * 2"
    and "re r = rho * velocity r * (D / 1000) / (mu / 1000)"
    and "darcy_friction_factor (re r) (eps / 1000) (D / 1000) = Inr (f r)"
    and "k_total r = (if io then of_int (elbows_90 r) * K + 1.5 else of_int (elbows_90 r) * K)"
    and "dp_distributed_pa r = f r * (length_m r / (D / 1000)) * (rho * (velocity r)\<^sup>2 / 2)"
    and "dp_local_pa r = k_total r * (rho * (velocity r)\<^sup>2 / 2)"
    and "dp_total_pa r = dp_distributed_pa r + dp_local_pa r"
    and "\<not> overflows ((D / 1000)\<^sup>2)"
    and "\<not> overflows (Q / 3600 * t / (pi * (D / 1000)\<^sup>2 / 4) / Ls)"
    and "\<not> overflows ((Q / 3600 / (pi * (D / 1000)\<^sup>2 / 4))\<^sup>2)"
proof -
  let ?area = "pi * (D / 1000)\<^sup>2 / 4"
  from assms obtain d2 v l s c rey fv v2 where
    d2: "fpow2 (D / 1000) = Inr d2" and
    v: "fdiv (Q / 3600) (pi * d2 / 4) = Inr v" and
    l: "fdiv (Q / 3600 * t) (pi * d2 / 4) = Inr l" and
    s: "fdiv l Ls = Inr s" and
    c: "math_ceil s = Inr c" and
    rey: "reynolds_number rho v (D / 1000) (mu / 1000) = Inr rey" and
    fv: "darcy_friction_factor rey (eps / 1000) (D / 1000) = Inr fv" and
    v2: "fpow2 v = Inr v2" and
    r: "r = \<lparr>flow_m3_s = Q / 3600,
              velocity = v,
              required_volume_m3 = Q / 3600 * t,
              length_m = l,
              n_straights = max 1 c,
              n_uturns = max 0 (max 1 c - 1),
              elbows_90 = max 0 (max 1 c - 1) * 2,
              re = rey,
              f = fv,
              k_total = (if io then of_int (max 0 (max 1 c - 1) * 2) * K + 1.5
                         else of_int (max 0 (max 1 c - 1) * 2) * K),
              dp_distributed_pa = fv * (l / (D / 1000)) * (rho * v2 / 2),
              dp_local_pa = (if io then of_int (max 0 (max 1 c - 1) * 2) * K + 1.5
                         else of_int (max 0 (max 1 c - 1) * 2) * K) * (rho * v2 / 2),
              dp_total_pa = fv * (l / (D / 1000)) * (rho * v2 / 2)
                 + (if io then of_int (max 0 (max 1 c - 1) * 2) * K + 1.5
                         else of_int (max 0 (max 1 c - 1) * 2) * K) * (rho * v2 / 2)\<rparr>"
    unfolding calculate_retention_coil_def Let_def bind_err_Inr_iff
    by (elim exE conjE) (simp only: sum.inject)
  from d2 have d2_range: "\<not> overflows ((D / 1000)\<^sup>2)" and d2_eq: "d2 = (D / 1000)\<^sup>2"
    unfolding fpow2_Inr_iff by blast+
  from v have area: "?area \<noteq> 0" and v_eq: "v = Q / 3600 / ?area"
    unfolding fdiv_Inr_iff d2_eq by blast+
  from l have l_eq: "l = Q / 3600 * t / ?area"
    unfolding fdiv_Inr_iff d2_eq by blast
  from s have Ls: "Ls \<noteq> 0" and s_eq: "s = l / Ls"
    unfolding fdiv_Inr_iff by blast+
  from c have c_range: "\<not> overflows s" and c_eq: "c = \<lceil>s\<rceil>"
    unfolding math_ceil_Inr_iff by blast+
  from rey have mu: "mu / 1000 \<noteq> 0" and rey_eq: "rey = rho * v * (D / 1000) / (mu / 1000)"
    unfolding reynolds_number_def fdiv_Inr_iff by blast+
  from v2 have v2_range: "\<not> overflows (v\<^sup>2)" and v2_eq: "v2 = v\<^sup>2"
    unfolding fpow2_Inr_iff by blast+
  from area show "D \<noteq> 0" by auto
  from Ls show "Ls \<noteq> 0" .
  from mu show "mu \<noteq> 0" by simp
  show "flow_m3_s r = Q / 3600" by (simp only: r result.select_convs)
  show "velocity r = flow_m3_s r / ?area" by (simp only: r result.select_convs v_eq)
  show "required_volume_m3 r = flow_m3_s r * t" by (simp only: r result.select_convs)
  show "length_m r = required_volume_m3 r / ?area" by (simp only: r result.select_convs l_eq)
  show "n_straights r = max 1 \<lceil>length_m r / Ls\<rceil>"
    by (simp only: r result.select_convs c_eq s_eq)
  show "n_uturns r = max 0 (n_straights r - 1)" by (simp only: r result.select_convs)
  show "elbows_90 r = n_uturns r * 2" by (simp only: r result.select_convs)
  show "re r = rho * velocity r * (D / 1000) / (mu / 1000)"
    by (simp only: r result.select_convs rey_eq)
  show "darcy_friction_factor (re r) (eps / 1000) (D / 1000) = Inr (f r)"
    by (simp only: r result.select_convs fv)
  show "k_total r = (if io then of_int (elbows_90 r) * K + 1.5 else of_int (elbows_90 r) * K)"
    by (simp only: r result.select_convs)
  show "dp_distributed_pa r = f r * (length_m r / (D / 1000)) * (rho * (velocity r)\<^sup>2 / 2)"
    by (simp only: r result.select_convs v2_eq)
  show "dp_local_pa r = k_total r * (rho * (velocity r)\<^sup>2 / 2)"
    by (simp only: r result.select_convs v2_eq)
  show "dp_total_pa r = dp_distributed_pa r + dp_local_pa r"
    by (simp only: r result.select_convs)
  from d2_range show "\<not> overflows ((D / 1000)\<^sup>2)" .
  from c_range show "\<not> overflows (Q / 3600 * t / ?area / Ls)"
    unfolding s_eq l_eq .
  from v2_range show "\<not> overflows ((Q / 3600 / ?area)\<^sup>2)"
    unfolding v_eq .
qed

lemma calculate_InrI:
  assumes "D \<noteq> 0" and "Ls \<noteq> 0" and "mu \<noteq> 0"
    and "darcy_friction_factor
           (rho * (Q / 3600 / (pi * (D / 1000)\<^sup>2 / 4)) * (D / 1000) / (mu / 1000))
           (eps / 1000) (D / 1000) = Inr fv"
    and "\<not> overflows ((D / 1000)\<^sup>2)"
    and "\<not> overflows (Q / 3600 * t / (pi * (D / 1000)\<^sup>2 / 4) / Ls)"
    and "\<not> overflows ((Q / 3600 / (pi * (D / 1000)\<^sup>2 / 4))\<^sup>2)"
  shows "\<exists>r. calculate_retention_coil Q t D eps rho mu Ls K io = Inr r"
proof -
  from assms(1) have area: "pi * (D / 1000)\<^sup>2 / 4 \<noteq> 0" by simp
  from assms(3) have mu: "mu / 1000 \<noteq> 0" by simp
  show ?thesis
    unfolding calculate_retention_coil_def Let_def reynolds_number_def
    by (simp only: fpow2_in_range [OF assms(5)] fdiv_nonzero [OF area]
          fdiv_nonzero [OF assms(2)] math_ceil_in_range [OF assms(6)] fdiv_nonzero [OF mu]
          bind_err_Inr assms(4) fpow2_in_range [OF assms(7)]) blast
qed


subsection \<open>The friction factor\<close>

lemma powr_09_ge_sqrt:
  assumes "1 \<le> (x::real)"
  shows "sqrt x \<le> x powr 0.9"
proof -
  from assms have "x powr (1 / 2) \<le> x powr 0.9"
    by (intro powr_mono) simp_all
  with assms show ?thesis
    by (simp add: powr_half_sqrt)
qed

lemma turbulent_powr_gt_47:
  assumes "2300 \<le> (x::real)"
  shows "47 < x powr 0.9"
proof -
  have "(47::real) = sqrt (47\<^sup>2)" by simp
  also have "\<dots> < sqrt 2300" by (intro real_sqrt_less_mono) simp
  also have "\<dots> \<le> sqrt x" using assms by simp
  also have "\<dots> \<le> x powr 0.9" using assms by (intro powr_09_ge_sqrt) simp
  finally show ?thesis .
qed

lemma turbulent_term_bounds:
  assumes "2300 \<le> (x::real)"
  shows "0 < 5.74 / x powr 0.9" and "5.74 / x powr 0.9 < 1 / 8"
proof -
  from turbulent_powr_gt_47 [OF assms] have p: "47 < x powr 0.9" .
  then have "0 < x powr 0.9" by linarith
  then show "0 < 5.74 / x powr 0.9" by (intro divide_pos_pos) simp_all
  from p have "5.74 < 1 / 8 * x powr 0.9" by simp
  with \<open>0 < x powr 0.9\<close> show "5.74 / x powr 0.9 < 1 / 8"
    by (simp only: pos_divide_less_eq)
qed

lemma swamee_jain_arg_bounds:
  fixes rey eps d :: real
  assumes "2300 \<le> rey" and "0 \<le> eps" and "0 < d" and "eps \<le> d"
  shows "0 < eps / d / 3.7 + 5.74 / rey powr 0.9"
    and "eps / d / 3.7 + 5.74 / rey powr 0.9 < 1"
proof -
  from assms have r0: "0 \<le> eps / d" and r1: "eps / d \<le> 1" by simp_all
  from r0 have "0 \<le> eps / d / 3.7" by simp
  with turbulent_term_bounds(1) [OF assms(1)]
  show "0 < eps / d / 3.7 + 5.74 / rey powr 0.9" by linarith
  from r1 have "eps / d / 3.7 \<le> 1 / 3.7" by (intro divide_right_mono) simp_all
  also have "\<dots> \<le> 1 / 2" by simp
  finally have "eps / d / 3.7 \<le> 1 / 2" .
  with turbulent_term_bounds(2) [OF assms(1)]
  show "eps / d / 3.7 + 5.74 / rey powr 0.9 < 1" by linarith
qed

lemma darcy_no_flow: "rey \<le> 0 \<Longrightarrow> darcy_friction_factor rey eps d = Inr 0"
  by (simp add: darcy_friction_factor_def)

lemma darcy_laminar:
  "0 < rey \<Longrightarrow> rey < 2300 \<Longrightarrow> darcy_friction_factor rey eps d = Inr (64 / rey)"
  by (simp add: darcy_friction_factor_def fdiv_def)

lemma darcy_turbulent_unfold:
  assumes "2300 \<le> rey" and "d \<noteq> 0"
  shows "darcy_friction_factor rey eps d =
           bind_err (log10 (eps / d / 3.7 + 5.74 / rey powr 0.9)) (\<lambda>l. fdiv 0.25 (l\<^sup>2))"
proof -
  from assms(1) have "47 < rey powr 0.9" by (rule turbulent_powr_gt_47)
  then have "rey powr 0.9 \<noteq> 0" by linarith
  then have "fdiv 5.74 (rey powr 0.9) = Inr (5.74 / rey powr 0.9)"
    by (rule fdiv_nonzero)
  with assms show ?thesis
    by (simp add: darcy_friction_factor_def fdiv_nonzero)
qed

lemma darcy_turbulent:
  assumes "2300 \<le> rey" and "d \<noteq> 0"
    and "0 < eps / d / 3.7 + 5.74 / rey powr 0.9"
    and "eps / d / 3.7 + 5.74 / rey powr 0.9 \<noteq> 1"
  shows "darcy_friction_factor rey eps d =
           Inr (0.25 / (log 10 (eps / d / 3.7 + 5.74 / rey powr 0.9))\<^sup>2)"
proof -
  let ?a = "eps / d / 3.7 + 5.74 / rey powr 0.9"
  have "log 10 ?a \<noteq> 0"
  proof (cases "?a < 1")
    case True
    with assms(3) have "log 10 ?a < 0" by simp
    then show ?thesis by simp
  next
    case False
    with assms(4) have "1 < ?a" by simp
    with assms(3) have "0 < log 10 ?a" by simp
    then show ?thesis by simp
  qed
  with assms(3) show ?thesis
    unfolding darcy_turbulent_unfold [OF assms(1,2)]
    by (simp add: log10_def fdiv_nonzero)
qed

lemma darcy_turbulent_ValueError:
  assumes "2300 \<le> rey" and "d \<noteq> 0"
    and "eps / d / 3.7 + 5.74 / rey powr 0.9 \<le> 0"
  shows "darcy_friction_factor rey eps d = Inl ValueError"
  using assms(3) unfolding darcy_turbulent_unfold [OF assms(1,2)]
  by (simp add: log10_def)

lemma darcy_turbulent_ZeroDivisionError:
  assumes "2300 \<le> rey" and "d \<noteq> 0"
    and "eps / d / 3.7 + 5.74 / rey powr 0.9 = 1"
  shows "darcy_friction_factor rey eps d = Inl ZeroDivisionError"
  unfolding darcy_turbulent_unfold [OF assms(1,2)] assms(3)
  by (simp add: log10_def)

lemma darcy_returns:
  assumes "0 \<le> eps" and "0 < d" and "eps \<le> d"
  shows "\<exists>fv. darcy_friction_factor rey eps d = Inr fv"
proof (cases "rey < 2300")
  case True
  then show ?thesis
    by (cases "rey \<le> 0") (simp_all add: darcy_no_flow darcy_laminar)
next
  case False
  then have t: "2300 \<le> rey" by simp
  from assms(2) have d: "d \<noteq> 0" by simp
  from swamee_jain_arg_bounds [OF t assms] darcy_turbulent [OF t d, of eps]
  show ?thesis by simp
qed


lemma darcy_roughness_irrelevant:
  "rey < 2300 \<Longrightarrow> darcy_friction_factor rey eps d = darcy_friction_factor rey eps' d"
  by (simp add: darcy_friction_factor_def)

lemma ten_powr_example: "(10000000000::real) powr 0.9 = 1000000000"
proof -
  have "(10000000000::real) = 10 powr 10" by simp
  then have "(10000000000::real) powr 0.9 = (10 powr 10) powr 0.9" by simp
  also have "\<dots> = 10 powr 9" unfolding powr_powr by simp
  also have "\<dots> = 1000000000" by simp
  finally show ?thesis .
qed

subsection \<open>When the calculation returns, and what it returns\<close>

text \<open>
  Inputs of ordinary size stay far inside the range of a double: a diameter between 1 mm and
  1 km, a flow and a retention time of at most \<open>10\<^sup>6\<close> in magnitude, and a straight segment
  of a micrometre or more.
\<close>

lemma ordinary_inputs_in_range:
  assumes "1 \<le> D" and "D \<le> 10 ^ 6" and "\<bar>Q\<bar> \<le> 10 ^ 6" and "\<bar>t\<bar> \<le> 10 ^ 6"
    and "1 / 10 ^ 6 \<le> \<bar>Ls\<bar>"
  shows "\<not> overflows ((D / 1000)\<^sup>2)"
    and "\<not> overflows (Q / 3600 * t / (pi * (D / 1000)\<^sup>2 / 4) / Ls)"
    and "\<not> overflows ((Q / 3600 / (pi * (D / 1000)\<^sup>2 / 4))\<^sup>2)"
proof -
  define A where "A = pi * (D / 1000)\<^sup>2 / 4"
  define v where "v = Q / 3600 / A"
  from assms(1,2) have "0 \<le> D / 1000" and "D / 1000 \<le> 1000" by simp_all
  then have "(D / 1000)\<^sup>2 \<le> 1000\<^sup>2" by (rule power_mono [rotated])
  then have "\<bar>(D / 1000)\<^sup>2\<bar> \<le> 10 ^ 40" by simp
  then show "\<not> overflows ((D / 1000)\<^sup>2)" by (rule not_overflows_small)
  from assms(1) have "(1 / 1000 :: real) \<le> D / 1000" by simp
  then have "(1 / 1000 :: real)\<^sup>2 \<le> (D / 1000)\<^sup>2" by (intro power_mono) simp_all
  then have sq: "1 / 1000000 \<le> (D / 1000)\<^sup>2" by (simp add: power2_eq_square)
  have "2 * (1 / 1000000) \<le> pi * (D / 1000)\<^sup>2"
    using pi_ge_two sq by (intro mult_mono) simp_all
  then have A_lb: "1 / 2000000 \<le> A" unfolding A_def by simp
  then have A_pos: "0 < A" by simp
  have "\<bar>v\<bar> = \<bar>Q\<bar> / 3600 / A"
    unfolding v_def using A_pos by (simp add: abs_mult)
  also have "\<dots> \<le> 10 ^ 6 / 3600 / A"
    using assms(3) A_pos by (intro divide_right_mono) simp_all
  also have "\<dots> \<le> 10 ^ 6 / 3600 / (1 / 2000000)"
    using A_lb A_pos by (intro divide_left_mono) simp_all
  also have "\<dots> \<le> 2 * 10 ^ 12" by simp
  finally have v_ub: "\<bar>v\<bar> \<le> 2 * 10 ^ 12" .
  then have "\<bar>v\<bar>\<^sup>2 \<le> (2 * 10 ^ 12)\<^sup>2" by (intro power_mono) simp_all
  then have "\<bar>v\<^sup>2\<bar> \<le> 10 ^ 40" by simp
  then have "\<not> overflows (v\<^sup>2)" by (rule not_overflows_small)
  then show "\<not> overflows ((Q / 3600 / (pi * (D / 1000)\<^sup>2 / 4))\<^sup>2)"
    unfolding v_def A_def .
  from assms(5) have Ls_pos: "0 < \<bar>Ls\<bar>" by simp
  have "\<bar>v\<bar> * \<bar>t\<bar> \<le> 2 * 10 ^ 12 * 10 ^ 6"
    using v_ub assms(4) by (intro mult_mono) simp_all
  then have "\<bar>v\<bar> * \<bar>t\<bar> / \<bar>Ls\<bar> \<le> 2 * 10 ^ 12 * 10 ^ 6 / (1 / 10 ^ 6)"
    using assms(5) by (intro frac_le) simp_all
  also have "\<dots> \<le> 10 ^ 40" by simp
  finally have "\<bar>v * t / Ls\<bar> \<le> 10 ^ 40" by (simp add: abs_mult)
  then have "\<not> overflows (v * t / Ls)" by (rule not_overflows_small)
  moreover have "v * t / Ls = Q / 3600 * t / A / Ls"
    unfolding v_def by simp
  ultimately show "\<not> overflows (Q / 3600 * t / (pi * (D / 1000)\<^sup>2 / 4) / Ls)"
    unfolding A_def by simp
qed

lemma calculate_returns:
  assumes "1 \<le> D" and "D \<le> 10 ^ 6" and "\<bar>Q\<bar> \<le> 10 ^ 6" and "\<bar>t\<bar> \<le> 10 ^ 6"
    and "1 / 10 ^ 6 \<le> \<bar>Ls\<bar>" and "mu \<noteq> 0" and "0 \<le> eps" and "eps \<le> D"
  shows "\<exists>r. calculate_retention_coil Q t D eps rho mu Ls K io = Inr r"
proof -
  from assms have "0 \<le> eps / 1000" and "0 < D / 1000" and "eps / 1000 \<le> D / 1000"
    by simp_all
  from darcy_returns [OF this]
  obtain fv where fv: "darcy_friction_factor
           (rho * (Q / 3600 / (pi * (D / 1000)\<^sup>2 / 4)) * (D / 1000) / (mu / 1000))
           (eps / 1000) (D / 1000) = Inr fv"
    by blast
  from assms(1) have D: "D \<noteq> 0" by simp
  from assms(5) have Ls: "Ls \<noteq> 0" by auto
  from D Ls assms(6) fv ordinary_inputs_in_range [OF assms(1-5)]
  show ?thesis by (rule calculate_InrI)
qed

text \<open>The Reynolds number of a returned record, in terms of the inputs.\<close>

lemma calculate_re:
  assumes "calculate_retention_coil Q t D eps rho mu Ls K io = Inr r"
  shows "re r = rho * (Q / 3600 / (pi * (D / 1000)\<^sup>2 / 4)) * (D / 1000) / (mu / 1000)"
  by (simp only: calculate_InrD(4,5,11) [OF assms])

lemma calculate_length:
  assumes "calculate_retention_coil Q t D eps rho mu Ls K io = Inr r"
  shows "length_m r = Q / 3600 * t / (pi * (D / 1000)\<^sup>2 / 4)"
  by (simp only: calculate_InrD(4,6,7) [OF assms])

lemma calculate_elbows:
  assumes "calculate_retention_coil Q t D eps rho mu Ls K io = Inr r"
  shows "n_straights r = max 1 \<lceil>Q / 3600 * t / (pi * (D / 1000)\<^sup>2 / 4) / Ls\<rceil>"
    and "n_uturns r = max 0 (max 1 \<lceil>Q / 3600 * t / (pi * (D / 1000)\<^sup>2 / 4) / Ls\<rceil> - 1)"
    and "elbows_90 r = max 0 (max 1 \<lceil>Q / 3600 * t / (pi * (D / 1000)\<^sup>2 / 4) / Ls\<rceil> - 1) * 2"
  by (simp_all only: calculate_InrD(4,6,7,8,9,10) [OF assms])

text \<open>A laminar example: the density of water and the largest viscosity the form accepts.\<close>

lemma laminar_example_re:
  "998 * (5 / 3600 / (pi * (25 / 1000)\<^sup>2 / 4)) * (25 / 1000) / (500 / 1000) < (2300::real)"
proof -
  define v :: real where "v = 5 / 3600 / (pi * (25 / 1000)\<^sup>2 / 4)"
  have "(1::real) / 3200 \<le> pi * (25 / 1000)\<^sup>2 / 4"
    using pi_ge_two by (simp add: power2_eq_square)
  then have "5 / 3600 / (pi * (25 / 1000)\<^sup>2 / 4) \<le> 5 / 3600 / (1 / 3200 :: real)"
    by (intro divide_left_mono) simp_all
  then have "v \<le> 40 / 9" unfolding v_def by simp
  then have "998 * v * (25 / 1000) / (500 / 1000) < 2300" by simp
  then show ?thesis unfolding v_def .
qed

section \<open>Properties of the calculation\<close>

subsection \<open>The friction factor\<close>

text \<open>
  C1. The Darcy friction factor follows the Reynolds number \<open>rey\<close> in three branches:
  it is 0 for \<open>rey \<le> 0\<close> and \<open>64 / rey\<close> for \<open>0 < rey < 2300\<close>. For \<open>rey \<ge> 2300\<close> and a
  diameter that is not 0, it is the Swamee-Jain value \<open>0.25 / (log10 a)\<^sup>2\<close>, with
  \<open>a = (roughness_m / diameter_m) / 3.7 + 5.74 / rey powr 0.9\<close>, whenever \<open>a\<close> is positive and not 1,
  which holds in particular for \<open>0 \<le> roughness_m \<le> diameter_m\<close>. Otherwise the call raises:
  \<^verbatim>\<open>ValueError\<close> for \<open>a \<le> 0\<close>, \<^verbatim>\<open>ZeroDivisionError\<close> for \<open>a = 1\<close> and for a diameter of 0.
\<close>

theorem darcy_friction_factor_regimes:
  fixes rey roughness_m diameter_m :: real
  shows
  "(rey \<le> 0 \<longrightarrow> darcy_friction_factor rey roughness_m diameter_m = Inr 0) \<and>
   (0 < rey \<and> rey < 2300 \<longrightarrow>
      darcy_friction_factor rey roughness_m diameter_m = Inr (64 / rey)) \<and>
   (2300 \<le> rey \<and> diameter_m \<noteq> 0 \<and>
    0 < roughness_m / diameter_m / 3.7 + 5.74 / rey powr 0.9 \<and>
    roughness_m / diameter_m / 3.7 + 5.74 / rey powr 0.9 \<noteq> 1 \<longrightarrow>
      darcy_friction_factor rey roughness_m diameter_m =
        Inr (0.25 / (log 10 (roughness_m / diameter_m / 3.7 + 5.74 / rey powr 0.9))\<^sup>2)) \<and>
   (2300 \<le> rey \<and> 0 < diameter_m \<and> 0 \<le> roughness_m \<and> roughness_m \<le> diameter_m \<longrightarrow>
      darcy_friction_factor rey roughness_m diameter_m =
        Inr (0.25 / (log 10 (roughness_m / diameter_m / 3.7 + 5.74 / rey powr 0.9))\<^sup>2)) \<and>
   (2300 \<le> rey \<and> diameter_m \<noteq> 0 \<and>
    roughness_m / diameter_m / 3.7 + 5.74 / rey powr 0.9 \<le> 0 \<longrightarrow>
      darcy_friction_factor rey roughness_m diameter_m = Inl ValueError) \<and>
   (2300 \<le> rey \<and> diameter_m \<noteq> 0 \<and>
    roughness_m / diameter_m / 3.7 + 5.74 / rey powr 0.9 = 1 \<longrightarrow>
      darcy_friction_factor rey roughness_m diameter_m = Inl ZeroDivisionError) \<and>
   (2300 \<le> rey \<and> diameter_m = 0 \<longrightarrow>
      darcy_friction_factor rey roughness_m diameter_m = Inl ZeroDivisionError)"
proof (intro conjI impI)
  assume "rey \<le> 0"
  then show "darcy_friction_factor rey roughness_m diameter_m = Inr 0"
    by (rule darcy_no_flow)
next
  assume "0 < rey \<and> rey < 2300"
  then show "darcy_friction_factor rey roughness_m diameter_m = Inr (64 / rey)"
    by (simp add: darcy_laminar)
next
  assume "2300 \<le> rey \<and> diameter_m \<noteq> 0 \<and>
    0 < roughness_m / diameter_m / 3.7 + 5.74 / rey powr 0.9 \<and>
    roughness_m / diameter_m / 3.7 + 5.74 / rey powr 0.9 \<noteq> 1"
  then show "darcy_friction_factor rey roughness_m diameter_m =
        Inr (0.25 / (log 10 (roughness_m / diameter_m / 3.7 + 5.74 / rey powr 0.9))\<^sup>2)"
    by (intro darcy_turbulent) blast+
next
  assume a: "2300 \<le> rey \<and> 0 < diameter_m \<and> 0 \<le> roughness_m \<and> roughness_m \<le> diameter_m"
  then have t: "2300 \<le> rey" and d: "diameter_m \<noteq> 0" by simp_all
  from a swamee_jain_arg_bounds [of rey roughness_m diameter_m]
  have "0 < roughness_m / diameter_m / 3.7 + 5.74 / rey powr 0.9"
    and "roughness_m / diameter_m / 3.7 + 5.74 / rey powr 0.9 \<noteq> 1"
    by simp_all
  then show "darcy_friction_factor rey roughness_m diameter_m =
        Inr (0.25 / (log 10 (roughness_m / diameter_m / 3.7 + 5.74 / rey powr 0.9))\<^sup>2)"
    by (rule darcy_turbulent [OF t d])
next
  assume "2300 \<le> rey \<and> diameter_m \<noteq> 0 \<and>
    roughness_m / diameter_m / 3.7 + 5.74 / rey powr 0.9 \<le> 0"
  then show "darcy_friction_factor rey roughness_m diameter_m = Inl ValueError"
    by (intro darcy_turbulent_ValueError) blast+
next
  assume "2300 \<le> rey \<and> diameter_m \<noteq> 0 \<and>
    roughness_m / diameter_m / 3.7 + 5.74 / rey powr 0.9 = 1"
  then show "darcy_friction_factor rey roughness_m diameter_m = Inl ZeroDivisionError"
    by (intro darcy_turbulent_ZeroDivisionError) blast+
next
  assume "2300 \<le> rey \<and> diameter_m = 0"
  then show "darcy_friction_factor rey roughness_m diameter_m = Inl ZeroDivisionError"
    by (simp add: darcy_friction_factor_def)
qed

theorem darcy_friction_factor_regimes_witness:
  "darcy_friction_factor 0 0.0000015 0.025 = Inr 0 \<and>
   darcy_friction_factor 2000 0.0000015 0.025 = Inr 0.032 \<and>
   darcy_friction_factor 100000 0.0001 1 =
     Inr (0.25 / (log 10 (0.0001 / 1 / 3.7 + 5.74 / 100000 powr 0.9))\<^sup>2)"
proof -
  note th = darcy_friction_factor_regimes
  have "darcy_friction_factor 0 0.0000015 0.025 = Inr 0"
    using th [of 0 "0.0000015" "0.025"] by simp
  moreover have "darcy_friction_factor 2000 0.0000015 0.025 = Inr 0.032"
    using th [of 2000 "0.0000015" "0.025"] by simp
  moreover have "(2300::real) \<le> 100000 \<and> (0::real) < 1 \<and> (0::real) \<le> 0.0001 \<and> (0.0001::real) \<le> 1"
    by simp
  with th [of 100000 "0.0001" 1]
  have "darcy_friction_factor 100000 0.0001 1 =
     Inr (0.25 / (log 10 (0.0001 / 1 / 3.7 + 5.74 / 100000 powr 0.9))\<^sup>2)"
    by blast
  ultimately show ?thesis by blast
qed

text \<open>
  With a positive diameter alone the turbulent branch need not return a value: a negative
  roughness makes the argument of \<^verbatim>\<open>math.log10\<close> negative, and a relative roughness near
  3.7 makes it 1, so that the division is by \<open>0\<^sup>2\<close>.
\<close>

theorem darcy_turbulent_raises_counterexample:
  "darcy_friction_factor 2300 (- 1) 1 = Inl ValueError \<and>
   darcy_friction_factor 10000000000 3.699999978762 1 = Inl ZeroDivisionError"
proof
  define x :: real where "x = 5.74 / 2300 powr 0.9"
  have "x < 1 / 8"
    unfolding x_def by (rule turbulent_term_bounds(2)) simp
  then have "(- 1) / 1 / 3.7 + x \<le> 0" by simp
  then have "(- 1) / 1 / 3.7 + 5.74 / (2300::real) powr 0.9 \<le> 0"
    unfolding x_def .
  then show "darcy_friction_factor 2300 (- 1) 1 = Inl ValueError"
    by (intro darcy_turbulent_ValueError) simp_all
next
  have "3.699999978762 / 1 / 3.7 + 5.74 / (10000000000::real) powr 0.9 = 1"
    unfolding ten_powr_example by simp
  then show "darcy_friction_factor 10000000000 3.699999978762 1 = Inl ZeroDivisionError"
    by (intro darcy_turbulent_ZeroDivisionError) simp_all
qed

subsection \<open>Pressure drop\<close>

text \<open>
  C3. In every record the calculation returns, \<open>dp_total_pa\<close> is the sum
  \<open>dp_distributed_pa + dp_local_pa\<close>, with nothing added or rounded afterwards.
\<close>

theorem dp_total_is_sum:
  assumes "calculate_retention_coil flow_m3_h retention_time_s diameter_mm roughness_mm rho
             mu_mpa_s straight_segment_m k_elbow_90 include_inlet_outlet_k = Inr r"
  shows "dp_total_pa r = dp_distributed_pa r + dp_local_pa r"
  using assms by (rule calculate_InrD(16))

theorem dp_total_is_sum_witness:
  "\<exists>r. calculate_retention_coil 5 60 25 0.0015 998 1 2 0.9 True = Inr r \<and>
       dp_total_pa r = dp_distributed_pa r + dp_local_pa r"
proof -
  have "\<exists>r. calculate_retention_coil 5 60 25 0.0015 998 1 2 0.9 True = Inr r"
    by (rule calculate_returns) simp_all
  then obtain r where r: "calculate_retention_coil 5 60 25 0.0015 998 1 2 0.9 True = Inr r" ..
  from dp_total_is_sum [OF r] r show ?thesis by blast
qed

subsection \<open>Layout: straight segments, U-turns and elbows\<close>

text \<open>
  C4. With positive flow, retention time, diameter and straight-segment length, a returned
  record has \<open>n_straights \<ge> 1\<close>; when the required length is no longer than one straight
  segment, \<open>n_straights\<close> is exactly 1.
\<close>

theorem n_straights_at_least_one:
  assumes "0 < flow_m3_h" and "0 < retention_time_s" and "0 < diameter_mm"
    and "0 < straight_segment_m"
    and "calculate_retention_coil flow_m3_h retention_time_s diameter_mm roughness_mm rho
           mu_mpa_s straight_segment_m k_elbow_90 include_inlet_outlet_k = Inr r"
  shows "1 \<le> n_straights r \<and> (length_m r \<le> straight_segment_m \<longrightarrow> n_straights r = 1)"
proof -
  note d = calculate_InrD [OF assms(5)]
  have n: "n_straights r = max 1 \<lceil>length_m r / straight_segment_m\<rceil>" by (rule d(8))
  have "1 \<le> n_straights r" unfolding n by (rule max.cobounded1)
  moreover have "n_straights r = 1" if "length_m r \<le> straight_segment_m"
  proof -
    from that assms(4) have "length_m r / straight_segment_m \<le> 1" by simp
    then have "\<lceil>length_m r / straight_segment_m\<rceil> \<le> 1" by (simp add: ceiling_le_iff)
    then show ?thesis unfolding n by simp
  qed
  ultimately show ?thesis by blast
qed

theorem n_straights_at_least_one_witness:
  "\<exists>r. calculate_retention_coil 0.01 1 300 0.0015 998 1 20 0.9 True = Inr r \<and>
       1 \<le> n_straights r \<and> n_straights r = 1"
proof -
  have "\<exists>r. calculate_retention_coil 0.01 1 300 0.0015 998 1 20 0.9 True = Inr r"
    by (rule calculate_returns) simp_all
  then obtain r where r: "calculate_retention_coil 0.01 1 300 0.0015 998 1 20 0.9 True = Inr r" ..
  have "(0::real) < 0.01" and "(0::real) < 1" and "(0::real) < 300" and "(0::real) < 20"
    by simp_all
  from n_straights_at_least_one [OF this r]
  have *: "1 \<le> n_straights r" "length_m r \<le> 20 \<longrightarrow> n_straights r = 1" by blast+
  have "(9::real) / 400 \<le> pi * (300 / 1000)\<^sup>2 / 4"
    using pi_ge_two by (simp add: power2_eq_square)
  then have "0.01 / 3600 * 1 / (pi * (300 / 1000)\<^sup>2 / 4) \<le> 0.01 / 3600 * 1 / (9 / 400)"
    by (intro divide_left_mono) simp_all
  also have "\<dots> \<le> (20::real)" by simp
  finally have "length_m r \<le> 20" unfolding calculate_length [OF r] .
  with * r show ?thesis by blast
qed

text \<open>
  C5. In every returned record \<open>n_uturns = max 0 (n_straights - 1)\<close> and
  \<open>elbows_90 = 2 * n_uturns\<close>, so \<open>elbows_90\<close> is even.
\<close>

theorem uturns_and_elbows:
  assumes "calculate_retention_coil flow_m3_h retention_time_s diameter_mm roughness_mm rho
             mu_mpa_s straight_segment_m k_elbow_90 include_inlet_outlet_k = Inr r"
  shows "n_uturns r = max 0 (n_straights r - 1) \<and> elbows_90 r = 2 * n_uturns r \<and>
         even (elbows_90 r)"
proof -
  note d = calculate_InrD [OF assms]
  from d(10) have "elbows_90 r = 2 * n_uturns r" by simp
  with d(9) show ?thesis by simp
qed

theorem uturns_and_elbows_witness:
  "\<exists>r. calculate_retention_coil 5 60 25 0.0015 998 1 2 0.9 True = Inr r \<and>
       n_uturns r = max 0 (n_straights r - 1) \<and> elbows_90 r = 2 * n_uturns r \<and>
       even (elbows_90 r)"
proof -
  have "\<exists>r. calculate_retention_coil 5 60 25 0.0015 998 1 2 0.9 True = Inr r"
    by (rule calculate_returns) simp_all
  then obtain r where r: "calculate_retention_coil 5 60 25 0.0015 998 1 2 0.9 True = Inr r" ..
  from uturns_and_elbows [OF r] r show ?thesis by blast
qed

subsection \<open>A diameter or a viscosity of zero\<close>

text \<open>
  C2. When \<open>diameter_mm\<close> is 0 or \<open>mu_mpa_s\<close> is 0 the call raises an exception and returns no
  record. With a diameter of 0 the exception is the \<^verbatim>\<open>ZeroDivisionError\<close> of the division by
  the area. With a viscosity of 0 and inputs of ordinary size (a diameter between 1 and \<open>10\<^sup>6\<close>
  mm, a flow and a retention time of at most \<open>10\<^sup>6\<close> in magnitude, a straight segment of at
  least \<open>10\<^sup>-\<^sup>6\<close> m in magnitude) it is the \<^verbatim>\<open>ZeroDivisionError\<close> of \<^verbatim>\<open>reynolds_number\<close>.
  Outside that range an earlier operation can raise first.
\<close>

theorem zero_diameter_or_viscosity_raises:
  assumes "diameter_mm = 0 \<or> mu_mpa_s = 0"
  shows "(\<exists>e. calculate_retention_coil flow_m3_h retention_time_s diameter_mm roughness_mm rho
                mu_mpa_s straight_segment_m k_elbow_90 include_inlet_outlet_k = Inl e) \<and>
         (diameter_mm = 0 \<longrightarrow>
            calculate_retention_coil flow_m3_h retention_time_s diameter_mm roughness_mm rho
              mu_mpa_s straight_segment_m k_elbow_90 include_inlet_outlet_k
            = Inl ZeroDivisionError) \<and>
         (1 \<le> diameter_mm \<and> diameter_mm \<le> 10 ^ 6 \<and> \<bar>flow_m3_h\<bar> \<le> 10 ^ 6 \<and>
          \<bar>retention_time_s\<bar> \<le> 10 ^ 6 \<and> 1 / 10 ^ 6 \<le> \<bar>straight_segment_m\<bar> \<longrightarrow>
            calculate_retention_coil flow_m3_h retention_time_s diameter_mm roughness_mm rho
              mu_mpa_s straight_segment_m k_elbow_90 include_inlet_outlet_k
            = Inl ZeroDivisionError)"
proof (intro conjI impI)
  let ?call = "calculate_retention_coil flow_m3_h retention_time_s diameter_mm roughness_mm rho
                 mu_mpa_s straight_segment_m k_elbow_90 include_inlet_outlet_k"
  show "\<exists>e. ?call = Inl e"
  proof (cases ?call)
    case (Inl e)
    then show ?thesis by blast
  next
    case (Inr r)
    from calculate_InrD(1,3) [OF Inr] assms show ?thesis by blast
  qed
next
  assume "diameter_mm = 0"
  then show "calculate_retention_coil flow_m3_h retention_time_s diameter_mm roughness_mm rho
               mu_mpa_s straight_segment_m k_elbow_90 include_inlet_outlet_k
             = Inl ZeroDivisionError"
    by (simp add: calculate_retention_coil_def fpow2_in_range)
next
  assume ordinary: "1 \<le> diameter_mm \<and> diameter_mm \<le> 10 ^ 6 \<and> \<bar>flow_m3_h\<bar> \<le> 10 ^ 6 \<and>
          \<bar>retention_time_s\<bar> \<le> 10 ^ 6 \<and> 1 / 10 ^ 6 \<le> \<bar>straight_segment_m\<bar>"
  then have o: "1 \<le> diameter_mm" "diameter_mm \<le> 10 ^ 6" "\<bar>flow_m3_h\<bar> \<le> 10 ^ 6"
    "\<bar>retention_time_s\<bar> \<le> 10 ^ 6" "1 / 10 ^ 6 \<le> \<bar>straight_segment_m\<bar>"
    by blast+
  note range = ordinary_inputs_in_range(1,2) [OF o]
  from ordinary assms have mu: "mu_mpa_s = 0" by simp
  from ordinary have area: "pi * (diameter_mm / 1000)\<^sup>2 / 4 \<noteq> 0" by simp
  from ordinary have seg: "straight_segment_m \<noteq> 0" by auto
  show "calculate_retention_coil flow_m3_h retention_time_s diameter_mm roughness_mm rho
          mu_mpa_s straight_segment_m k_elbow_90 include_inlet_outlet_k
        = Inl ZeroDivisionError"
    unfolding calculate_retention_coil_def Let_def reynolds_number_def mu
    by (simp only: fpow2_in_range [OF range(1)] fdiv_nonzero [OF area] fdiv_nonzero [OF seg]
          math_ceil_in_range [OF range(2)] bind_err_Inr div_0 fdiv_zero bind_err_Inl)
qed

theorem zero_diameter_or_viscosity_raises_witness:
  "calculate_retention_coil 5 60 0 0.0015 998 1 2 0.9 True = Inl ZeroDivisionError \<and>
   calculate_retention_coil 5 60 25 0.0015 998 0 2 0.9 True = Inl ZeroDivisionError \<and>
   (\<exists>e. calculate_retention_coil 5 60 25 0.0015 998 0 (1 / 10 ^ 320) 0.9 True = Inl e)"
proof (intro conjI)
  have "(0::real) = 0 \<or> (1::real) = 0" by simp
  from zero_diameter_or_viscosity_raises [OF this, of 5 60 "0.0015" 998 2 "0.9" True]
  show "calculate_retention_coil 5 60 0 0.0015 998 1 2 0.9 True = Inl ZeroDivisionError"
    by simp
  have "(25::real) = 0 \<or> (0::real) = 0" by simp
  from zero_diameter_or_viscosity_raises [OF this, of 5 60 "0.0015" 998 2 "0.9" True]
  show "calculate_retention_coil 5 60 25 0.0015 998 0 2 0.9 True = Inl ZeroDivisionError"
    by simp
  have "(25::real) = 0 \<or> (0::real) = 0" by simp
  from zero_diameter_or_viscosity_raises [OF this, of 5 60 "0.0015" 998 "1 / 10 ^ 320" "0.9" True]
  show "\<exists>e. calculate_retention_coil 5 60 25 0.0015 998 0 (1 / 10 ^ 320) 0.9 True = Inl e"
    by blast
qed

text \<open>
  The exception need not be the division by zero: with a viscosity of 0 and a straight segment
  of \<open>10\<^sup>-\<^sup>3\<^sup>2\<^sup>0\<close> m, the quotient \<^verbatim>\<open>length_m / straight_segment_m\<close> is beyond the range of a
  double, and \<^verbatim>\<open>math.ceil\<close> raises \<^verbatim>\<open>OverflowError\<close> before \<^verbatim>\<open>reynolds_number\<close> is called.
\<close>

theorem zero_viscosity_overflow_counterexample:
  "calculate_retention_coil 5 60 25 0.0015 998 0 (1 / 10 ^ 320) 0.9 True = Inl OverflowError"
proof -
  let ?area = "pi * (25 / 1000)\<^sup>2 / 4 :: real"
  define L :: real where "L = 5 / 3600 * 60 / ?area"
  have d2: "\<not> overflows ((25 / 1000 :: real)\<^sup>2)"
    by (rule not_overflows_small) (simp add: power2_eq_square)
  have area: "?area \<noteq> 0" by simp
  have seg: "(1 / 10 ^ 320 :: real) \<noteq> 0" by simp
  have "?area \<le> 1 / 1600"
    using pi_less_4 by (simp add: power2_eq_square)
  then have "5 / 3600 * 60 / (1 / 1600 :: real) \<le> L"
    unfolding L_def by (intro divide_left_mono) simp_all
  then have len: "1 \<le> L" by simp
  have "float_max + 2 ^ 970 \<le> 1 * 10 ^ 320"
    by (simp add: float_max_def)
  also have "\<dots> \<le> L * 10 ^ 320"
    using len by (intro mult_right_mono) simp_all
  also have "\<dots> = L / (1 / 10 ^ 320)" by simp
  finally have "float_max + 2 ^ 970 \<le> \<bar>L / (1 / 10 ^ 320)\<bar>" by linarith
  then have ov: "overflows (5 / 3600 * 60 / ?area / (1 / 10 ^ 320))"
    unfolding overflows_def L_def .
  show ?thesis
    unfolding calculate_retention_coil_def Let_def
    by (simp only: fpow2_in_range [OF d2] fdiv_nonzero [OF area] fdiv_nonzero [OF seg]
          math_ceil_overflow [OF ov] bind_err_Inr bind_err_Inl)
qed

subsection \<open>Local losses\<close>

text \<open>
  C6. With the other eight inputs fixed, a call with \<open>include_inlet_outlet_k = True\<close> that
  returns has a returning counterpart with \<open>False\<close>, and its \<open>k_total\<close> is the counterpart's
  plus 1.5; without the inlet/outlet loss \<open>k_total\<close> is \<open>elbows_90 * k_elbow_90\<close>.
\<close>

theorem inlet_outlet_toggle:
  assumes "calculate_retention_coil flow_m3_h retention_time_s diameter_mm roughness_mm rho
             mu_mpa_s straight_segment_m k_elbow_90 True = Inr r1"
  shows "\<exists>r0. calculate_retention_coil flow_m3_h retention_time_s diameter_mm roughness_mm rho
                mu_mpa_s straight_segment_m k_elbow_90 False = Inr r0 \<and>
              k_total r1 = k_total r0 + 1.5 \<and>
              k_total r0 = of_int (elbows_90 r0) * k_elbow_90 \<and>
              k_total r1 = of_int (elbows_90 r1) * k_elbow_90 + 1.5"
proof -
  note d1 = calculate_InrD [OF assms]
  from d1(12) have "darcy_friction_factor
      (rho * (flow_m3_h / 3600 / (pi * (diameter_mm / 1000)\<^sup>2 / 4)) * (diameter_mm / 1000)
         / (mu_mpa_s / 1000))
      (roughness_mm / 1000) (diameter_mm / 1000) = Inr (f r1)"
    unfolding calculate_re [OF assms] .
  from calculate_InrI [OF d1(1,2,3) this d1(17,18,19)]
  obtain r0 where r0: "calculate_retention_coil flow_m3_h retention_time_s diameter_mm
      roughness_mm rho mu_mpa_s straight_segment_m k_elbow_90 False = Inr r0"
    by blast
  note d0 = calculate_InrD [OF r0]
  have e: "elbows_90 r1 = elbows_90 r0"
    by (simp only: calculate_elbows(3) [OF assms] calculate_elbows(3) [OF r0])
  from d0(13) have k0: "k_total r0 = of_int (elbows_90 r0) * k_elbow_90" by simp
  from d1(13) have k1: "k_total r1 = of_int (elbows_90 r1) * k_elbow_90 + 1.5" by simp
  from k0 k1 e have "k_total r1 = k_total r0 + 1.5" by simp
  with r0 k0 k1 show ?thesis by blast
qed

theorem inlet_outlet_toggle_witness:
  "\<exists>r1 r0. calculate_retention_coil 5 60 25 0.0015 998 1 2 0.9 True = Inr r1 \<and>
     calculate_retention_coil 5 60 25 0.0015 998 1 2 0.9 False = Inr r0 \<and>
     k_total r1 = k_total r0 + 1.5 \<and>
     k_total r0 = of_int (elbows_90 r0) * 0.9 \<and>
     k_total r1 = of_int (elbows_90 r1) * 0.9 + 1.5"
proof -
  have "\<exists>r. calculate_retention_coil 5 60 25 0.0015 998 1 2 0.9 True = Inr r"
    by (rule calculate_returns) simp_all
  then obtain r where r: "calculate_retention_coil 5 60 25 0.0015 998 1 2 0.9 True = Inr r" ..
  from inlet_outlet_toggle [OF r] r show ?thesis by blast
qed

subsection \<open>Monotonicity in the retention time\<close>

text \<open>
  C7. For two returning calls that differ only in the retention time, with a flow that is not
  negative and a positive straight-segment length, the longer retention time gives no smaller
  \<open>n_straights\<close>, \<open>length_m\<close> and \<open>elbows_90\<close>.
\<close>

theorem retention_time_monotone:
  assumes "0 \<le> flow_m3_h" and "0 < straight_segment_m"
    and "retention_time_s \<le> retention_time_s'"
    and "calculate_retention_coil flow_m3_h retention_time_s diameter_mm roughness_mm rho
           mu_mpa_s straight_segment_m k_elbow_90 include_inlet_outlet_k = Inr r"
    and "calculate_retention_coil flow_m3_h retention_time_s' diameter_mm roughness_mm rho
           mu_mpa_s straight_segment_m k_elbow_90 include_inlet_outlet_k = Inr r'"
  shows "n_straights r \<le> n_straights r' \<and> length_m r \<le> length_m r' \<and>
         elbows_90 r \<le> elbows_90 r'"
proof -
  note d = calculate_InrD [OF assms(4)] and d' = calculate_InrD [OF assms(5)]
  from d(1) have area: "0 < pi * (diameter_mm / 1000)\<^sup>2 / 4" by simp
  from assms(1,3) have "flow_m3_h / 3600 * retention_time_s \<le> flow_m3_h / 3600 * retention_time_s'"
    by (intro mult_left_mono) simp_all
  with area have len: "length_m r \<le> length_m r'"
    unfolding calculate_length [OF assms(4)] calculate_length [OF assms(5)]
    by (intro divide_right_mono) simp_all
  with assms(2) have "length_m r / straight_segment_m \<le> length_m r' / straight_segment_m"
    by (intro divide_right_mono) simp_all
  then have "\<lceil>length_m r / straight_segment_m\<rceil> \<le> \<lceil>length_m r' / straight_segment_m\<rceil>"
    by (rule ceiling_mono)
  then have n: "n_straights r \<le> n_straights r'"
    unfolding d(8) d'(8) by simp
  then have "n_uturns r \<le> n_uturns r'"
    unfolding d(9) d'(9) by simp
  then have "elbows_90 r \<le> elbows_90 r'"
    unfolding d(10) d'(10) by simp
  with n len show ?thesis by blast
qed

theorem retention_time_monotone_witness:
  "\<exists>r r'. calculate_retention_coil 5 60 25 0.0015 998 1 2 0.9 True = Inr r \<and>
     calculate_retention_coil 5 120 25 0.0015 998 1 2 0.9 True = Inr r' \<and>
     n_straights r \<le> n_straights r' \<and> length_m r \<le> length_m r' \<and>
     elbows_90 r \<le> elbows_90 r'"
proof -
  have "\<exists>r. calculate_retention_coil 5 60 25 0.0015 998 1 2 0.9 True = Inr r"
    by (rule calculate_returns) simp_all
  then obtain r where r: "calculate_retention_coil 5 60 25 0.0015 998 1 2 0.9 True = Inr r" ..
  have "\<exists>r. calculate_retention_coil 5 120 25 0.0015 998 1 2 0.9 True = Inr r"
    by (rule calculate_returns) simp_all
  then obtain r' where r': "calculate_retention_coil 5 120 25 0.0015 998 1 2 0.9 True = Inr r'" ..
  have "(0::real) \<le> 5" and "(0::real) < 2" and "(60::real) \<le> 120" by simp_all
  from retention_time_monotone [OF this r r'] r r' show ?thesis by blast
qed

subsection \<open>Independence of the roughness\<close>

text \<open>
  C9. When the Reynolds number of a returned record is below 2300, a call that differs only in
  \<open>roughness_mm\<close> returns the very same record.
\<close>

theorem laminar_result_ignores_roughness:
  assumes "calculate_retention_coil flow_m3_h retention_time_s diameter_mm roughness_mm rho
             mu_mpa_s straight_segment_m k_elbow_90 include_inlet_outlet_k = Inr r"
    and "re r < 2300"
  shows "calculate_retention_coil flow_m3_h retention_time_s diameter_mm roughness_mm' rho
           mu_mpa_s straight_segment_m k_elbow_90 include_inlet_outlet_k = Inr r"
proof -
  note d = calculate_InrD [OF assms(1)]
  from assms(2) d(12) have fr: "darcy_friction_factor (re r) (roughness_mm' / 1000)
      (diameter_mm / 1000) = Inr (f r)"
    by (simp only: darcy_roughness_irrelevant [of "re r" "roughness_mm' / 1000" _ "roughness_mm / 1000"])
  from calculate_InrI [OF d(1,2,3) fr [unfolded calculate_re [OF assms(1)]] d(17,18,19)]
  obtain r' where r': "calculate_retention_coil flow_m3_h retention_time_s diameter_mm
      roughness_mm' rho mu_mpa_s straight_segment_m k_elbow_90 include_inlet_outlet_k = Inr r'"
    by blast
  note d' = calculate_InrD [OF r']
  have flow: "flow_m3_s r' = flow_m3_s r" by (simp only: d(4) d'(4))
  have vel: "velocity r' = velocity r" by (simp only: d(5) d'(5) flow)
  have vol: "required_volume_m3 r' = required_volume_m3 r" by (simp only: d(6) d'(6) flow)
  have len: "length_m r' = length_m r" by (simp only: d(7) d'(7) vol)
  have ns: "n_straights r' = n_straights r" by (simp only: d(8) d'(8) len)
  have nu: "n_uturns r' = n_uturns r" by (simp only: d(9) d'(9) ns)
  have el: "elbows_90 r' = elbows_90 r" by (simp only: d(10) d'(10) nu)
  have rey: "re r' = re r" by (simp only: d(11) d'(11) vel)
  from d'(12) fr have fv: "f r' = f r" by (simp only: rey sum.inject)
  have k: "k_total r' = k_total r" by (simp only: d(13) d'(13) el)
  have dpd: "dp_distributed_pa r' = dp_distributed_pa r" by (simp only: d(14) d'(14) fv len vel)
  have dpl: "dp_local_pa r' = dp_local_pa r" by (simp only: d(15) d'(15) k vel)
  have dpt: "dp_total_pa r' = dp_total_pa r" by (simp only: d(16) d'(16) dpd dpl)
  have "r' = r"
    by (rule result.equality) (simp_all add: flow vel vol len ns nu el rey fv k dpd dpl dpt)
  with r' show ?thesis by simp
qed

theorem laminar_result_ignores_roughness_witness:
  "\<exists>r. calculate_retention_coil 5 60 25 0.0015 998 500 2 0.9 True = Inr r \<and>
       re r < 2300 \<and>
       calculate_retention_coil 5 60 25 0.045 998 500 2 0.9 True = Inr r"
proof -
  have "\<exists>r. calculate_retention_coil 5 60 25 0.0015 998 500 2 0.9 True = Inr r"
    by (rule calculate_returns) simp_all
  then obtain r where r: "calculate_retention_coil 5 60 25 0.0015 998 500 2 0.9 True = Inr r" ..
  have lam: "re r < 2300"
    unfolding calculate_re [OF r] by (rule laminar_example_re)
  from laminar_result_ignores_roughness [OF r lam] r lam show ?thesis by blast
qed

subsection \<open>Signs of the returned fields\<close>




end
